theory Spec2Isabelle
  imports Complex_Main "HOL-Library.Log_Nat" "HOL-Library.Multiset"
begin

section \<open>Helpdesk ticket report: the data model\<close>

text \<open>
  The program (\<^verbatim>\<open>main.py\<close>) reads helpdesk tickets from a spreadsheet, aggregates them
  with pandas and exports the aggregate. This theory embeds the ticket constructor, the
  aggregator \<^verbatim>\<open>TicketReport\<close> and the driver \<^verbatim>\<open>ReportGenarator\<close>.

  A raw scalar, as \<^verbatim>\<open>pd.read_excel\<close> hands it to the program from a spreadsheet cell, is
  an empty cell (\<^verbatim>\<open>NaN\<close>/\<^verbatim>\<open>NaT\<close>), a text, a date-time (a naive \<^verbatim>\<open>Timestamp\<close>, here its
  number of nanoseconds since the epoch) or an integer number. A caller of the
  constructor can also pass Python's \<^verbatim>\<open>None\<close>.
\<close>

datatype cell = Missing | PyNone | Text string | Stamp int | Number int

text \<open>The exceptions of Python and pandas that the program can let escape.\<close>

datatype py_error =
    KeyError | AttributeError | ValueError | NameError | TypeError
  | FileNotFoundError | OSError | SMTPException

text \<open>
  A time stamp of pandas: the missing time stamp \<^verbatim>\<open>NaT\<close> or a \<^verbatim>\<open>Timestamp\<close>, which is naive
  or aware of a time zone. A \<^verbatim>\<open>Timestamp\<close> is held as its wall-clock reading, in
  nanoseconds since the epoch, and the name of its zone, if it has one; zones that
  pandas takes for the same zone have the same name.
\<close>

datatype stamp = NaT | Timestamp int "string option"

text \<open>
  \<^verbatim>\<open>class Tickets\<close>: the five attributes that \<^verbatim>\<open>__init__\<close> assigns. The two dates are
  what \<^verbatim>\<open>pd.to_datetime\<close> returned, a time stamp or Python's \<^verbatim>\<open>None\<close> (here \<open>None\<close>).
\<close>

record Tickets =
  ticket_id :: cell
  date_opened :: "stamp option"
  date_closed :: "stamp option"
  category :: cell
  status :: string

subsection \<open>The constructor\<close>

text \<open>\<^verbatim>\<open>pd.notna(x)\<close>: false exactly on a missing value and on \<^verbatim>\<open>None\<close>.\<close>

fun notna :: "cell \<Rightarrow> bool" where
  "notna Missing = False"
| "notna PyNone = False"
| "notna _ = True"

text \<open>
  \<^verbatim>\<open>pd.to_datetime(x)\<close> on a scalar: \<^verbatim>\<open>None\<close> is returned as it is, a missing value gives
  \<^verbatim>\<open>NaT\<close>, a \<^verbatim>\<open>Timestamp\<close> is returned as it is, and a text or a number goes through the
  library's parser, which either raises or returns a \<^verbatim>\<open>Timestamp\<close> (aware of a zone
  when the text names an offset) or \<^verbatim>\<open>NaT\<close>. The parser is the library's and not part
  of the program: it is the parameter \<open>conv\<close>.
\<close>

type_synonym parser = "cell \<Rightarrow> py_error + stamp"

fun to_datetime :: "parser \<Rightarrow> cell \<Rightarrow> py_error + stamp option" where
  "to_datetime conv PyNone = Inr None"
| "to_datetime conv Missing = Inr (Some NaT)"
| "to_datetime conv (Stamp t) = Inr (Some (Timestamp t None))"
| "to_datetime conv c = map_sum id Some (conv c)"

text \<open>
  \<^verbatim>\<open>str.lower()\<close>. A text is held as the bytes of its UTF-8 encoding, so the ASCII
  characters are the bytes below 128. On a text of ASCII characters only, the letters
  \<^verbatim>\<open>A\<close> to \<^verbatim>\<open>Z\<close> move to \<^verbatim>\<open>a\<close> to \<^verbatim>\<open>z\<close> and every other character stays. On any other
  text the interpreter applies the lower-case mapping of its Unicode database, which
  is the interpreter's and not part of the program: it is the parameter \<open>ucd\<close>. Only a
  text has the method: on any other cell the attribute lookup raises
  \<^verbatim>\<open>AttributeError\<close>.
\<close>

definition is_ascii :: "char \<Rightarrow> bool" where
  "is_ascii c = ((of_char c :: nat) < 128)"

definition char_lower :: "char \<Rightarrow> char" where
  "char_lower c =
     (let n = (of_char c :: nat) in if 65 \<le> n \<and> n \<le> 90 then char_of (n + 32) else c)"

type_synonym unicode_lower = "string \<Rightarrow> string"

definition lower :: "unicode_lower \<Rightarrow> string \<Rightarrow> string" where
  "lower ucd s = (if list_all is_ascii s then map char_lower s else ucd s)"

fun str_lower :: "unicode_lower \<Rightarrow> cell \<Rightarrow> py_error + string" where
  "str_lower ucd (Text s) = Inr (lower ucd s)"
| "str_lower ucd _ = Inl AttributeError"

text \<open>
  \<^verbatim>\<open>Tickets.__init__\<close>, statement by statement: the opened date is converted, the close
  date is converted only when \<^verbatim>\<open>pd.notna\<close> holds and is \<^verbatim>\<open>None\<close> otherwise, the status is
  lower-cased. The first statement that raises ends the construction.
\<close>

definition Tickets_init ::
  "parser \<Rightarrow> unicode_lower \<Rightarrow> cell \<Rightarrow> cell \<Rightarrow> cell \<Rightarrow> cell \<Rightarrow> cell \<Rightarrow>
     py_error + Tickets" where
  "Tickets_init conv ucd tid dopen dclose cat st =
     (case to_datetime conv dopen of
        Inl e \<Rightarrow> Inl e
      | Inr d_open \<Rightarrow>
          (case (if notna dclose then to_datetime conv dclose else Inr None) of
             Inl e \<Rightarrow> Inl e
           | Inr d_closed \<Rightarrow>
               (case str_lower ucd st of
                  Inl e \<Rightarrow> Inl e
                | Inr s \<Rightarrow>
                    Inr \<lparr>ticket_id = tid, date_opened = d_open, date_closed = d_closed,
                         category = cat, status = s\<rparr>)))"

section \<open>The aggregator\<close>

subsection \<open>The data frame\<close>

text \<open>
  \<^verbatim>\<open>pd.DataFrame([t.__dict__ for t in tickets])\<close>. From a non-empty list of attribute
  dictionaries pandas builds the five columns; from the empty list it builds a frame
  with no column at all. Each column gets a dtype when the frame is built. A column of
  time stamps is \<^verbatim>\<open>datetime64\<close> (with or without a zone) when its \<^verbatim>\<open>Timestamp\<close>s are all
  naive or all aware of the same zone, \<^verbatim>\<open>NaT\<close> and \<^verbatim>\<open>None\<close> fitting either; it stays
  \<^verbatim>\<open>object\<close> when naive and aware \<^verbatim>\<open>Timestamp\<close>s or two zones meet in it, and when it
  holds nothing but Python's \<^verbatim>\<open>None\<close>. \<^verbatim>\<open>date_opened\<close> is \<^verbatim>\<open>None\<close> only for a ticket
  constructed from \<^verbatim>\<open>None\<close>; \<^verbatim>\<open>date_closed\<close> is \<^verbatim>\<open>None\<close> for every ticket whose raw close
  date is missing. A frame keeps its dtypes when rows are selected from it.
\<close>

datatype dtype = Datetime64 | Object

record DataFrame =
  columns :: "string list"
  rows :: "Tickets list"
  opened_dtype :: dtype
  closed_dtype :: dtype

definition has_open_date :: "Tickets \<Rightarrow> bool" where
  "has_open_date t = (date_opened t \<noteq> None)"

definition has_close_date :: "Tickets \<Rightarrow> bool" where
  "has_close_date t = (date_closed t \<noteq> None)"

text \<open>The zones of the \<^verbatim>\<open>Timestamp\<close>s of a column, and whether they are all the same.\<close>

fun zones :: "stamp option list \<Rightarrow> string option list" where
  "zones [] = []"
| "zones (Some (Timestamp t z) # col) = z # zones col"
| "zones (_ # col) = zones col"

fun one_zone :: "string option list \<Rightarrow> bool" where
  "one_zone [] = True"
| "one_zone (z # zs) = list_all (\<lambda>z'. z' = z) zs"

definition infer_dtype :: "stamp option list \<Rightarrow> dtype" where
  "infer_dtype col =
     (if list_all (\<lambda>v. v = None) col then Object
      else if one_zone (zones col) then Datetime64 else Object)"

definition DataFrame :: "Tickets list \<Rightarrow> DataFrame" where
  "DataFrame ts =
     (if ts = [] then \<lparr>columns = [], rows = [], opened_dtype = Object, closed_dtype = Object\<rparr>
      else \<lparr>columns = [''ticket_id'', ''date_opened'', ''date_closed'', ''category'', ''status''],
            rows = ts,
            opened_dtype = infer_dtype (map date_opened ts),
            closed_dtype = infer_dtype (map date_closed ts)\<rparr>)"

text \<open>\<^verbatim>\<open>df[name]\<close>: the column, or \<^verbatim>\<open>KeyError\<close> when the frame has no such column.\<close>

definition getitem :: "DataFrame \<Rightarrow> string \<Rightarrow> (Tickets \<Rightarrow> 'a) \<Rightarrow> py_error + 'a list" where
  "getitem d name field =
     (if name \<in> set (columns d) then Inr (map field (rows d)) else Inl KeyError)"

text \<open>\<^verbatim>\<open>df[mask]\<close>: the rows where the boolean column is true, dtypes unchanged.\<close>

definition select_rows :: "DataFrame \<Rightarrow> bool list \<Rightarrow> DataFrame" where
  "select_rows d sel = d\<lparr>rows := map fst (filter snd (zip (rows d) sel))\<rparr>"

text \<open>\<^verbatim>\<open>self.df[self.df['status'] == 'closed']\<close>, used by three methods.\<close>

definition closed_df :: "DataFrame \<Rightarrow> py_error + DataFrame" where
  "closed_df d =
     (case getitem d ''status'' status of
        Inl e \<Rightarrow> Inl e
      | Inr col \<Rightarrow> Inr (select_rows d (map (\<lambda>s. s = ''closed'') col)))"

text \<open>
  \<^verbatim>\<open>.dt.date\<close>: the calendar date of each time stamp on its own wall clock, as the
  number of the day since the epoch; \<^verbatim>\<open>NaT\<close> stays missing, and in a \<^verbatim>\<open>datetime64\<close> column
  \<^verbatim>\<open>None\<close> is stored as \<^verbatim>\<open>NaT\<close>. The accessor \<^verbatim>\<open>.dt\<close> exists on a \<^verbatim>\<open>datetime64\<close> column
  only and raises \<^verbatim>\<open>AttributeError\<close> on an \<^verbatim>\<open>object\<close> column.
\<close>

definition ns_per_day :: int where
  "ns_per_day = 86400 * 1000000000"

definition date_of :: "int \<Rightarrow> int" where
  "date_of t = t div ns_per_day"

fun stamp_date :: "stamp \<Rightarrow> int option" where
  "stamp_date NaT = None"
| "stamp_date (Timestamp t z) = Some (date_of t)"

fun stored :: "stamp option \<Rightarrow> stamp" where
  "stored None = NaT"
| "stored (Some s) = s"

definition dt_date :: "dtype \<Rightarrow> stamp list \<Rightarrow> py_error + int option list" where
  "dt_date ty col =
     (case ty of Datetime64 \<Rightarrow> Inr (map stamp_date col) | Object \<Rightarrow> Inl AttributeError)"

text \<open>
  \<^verbatim>\<open>frame.groupby(keys)[column].count()\<close>: one group for each distinct key, rows whose
  key is missing are dropped, the groups come in ascending order of the key, and the
  count of a group is the number of its rows whose value in the column is not missing.
\<close>

definition present_keys :: "'k option list \<Rightarrow> 'k list" where
  "present_keys keys = map the (filter (\<lambda>k. k \<noteq> None) keys)"

definition counted_keys :: "'k option list \<Rightarrow> cell list \<Rightarrow> 'k list" where
  "counted_keys keys vals = present_keys (map fst (filter (\<lambda>kv. notna (snd kv)) (zip keys vals)))"

definition groupby_count :: "('k::linorder) option list \<Rightarrow> cell list \<Rightarrow> ('k \<times> nat) list" where
  "groupby_count keys vals =
     map (\<lambda>k. (k, count_list (counted_keys keys vals) k)) (sort (remdups (present_keys keys)))"

subsection \<open>The methods of \<^verbatim>\<open>TicketReport\<close>\<close>

record TicketReport =
  tickets :: "Tickets list"
  df :: DataFrame

definition TicketReport_init :: "Tickets list \<Rightarrow> TicketReport" where
  "TicketReport_init ts = \<lparr>tickets = ts, df = DataFrame ts\<rparr>"

definition tickets_per_day :: "TicketReport \<Rightarrow> py_error + (int \<times> nat) list" where
  "tickets_per_day self =
     (case getitem (df self) ''date_opened'' (\<lambda>t. stored (date_opened t)) of
        Inl e \<Rightarrow> Inl e
      | Inr col \<Rightarrow>
          (case dt_date (opened_dtype (df self)) col of
             Inl e \<Rightarrow> Inl e
           | Inr keys \<Rightarrow>
               (case getitem (df self) ''ticket_id'' ticket_id of
                  Inl e \<Rightarrow> Inl e
                | Inr ids \<Rightarrow> Inr (groupby_count keys ids))))"

definition closed_tickets_per_day :: "TicketReport \<Rightarrow> py_error + (int \<times> nat) list" where
  "closed_tickets_per_day self =
     (case closed_df (df self) of
        Inl e \<Rightarrow> Inl e
      | Inr cdf \<Rightarrow>
          (case getitem cdf ''date_closed'' (\<lambda>t. stored (date_closed t)) of
             Inl e \<Rightarrow> Inl e
           | Inr col \<Rightarrow>
               (case dt_date (closed_dtype cdf) col of
                  Inl e \<Rightarrow> Inl e
                | Inr keys \<Rightarrow>
                    (case getitem cdf ''ticket_id'' ticket_id of
                       Inl e \<Rightarrow> Inl e
                     | Inr ids \<Rightarrow> Inr (groupby_count keys ids)))))"

text \<open>
  \<^verbatim>\<open>Series.value_counts()\<close>: pandas counts the values that are not missing with a hash
  table, which lists them in the order of their first occurrence, and then sorts the
  result by descending count (\<^verbatim>\<open>sort_values(ascending=False)\<close>). The sort is NumPy's; it
  is the parameter \<open>srt\<close>, and what the theorems need of it is stated with them.
\<close>

fun first_seen :: "'a list \<Rightarrow> 'a list" where
  "first_seen [] = []"
| "first_seen (x # xs) = x # filter (\<lambda>y. y \<noteq> x) (first_seen xs)"

definition value_count :: "cell list \<Rightarrow> (cell \<times> nat) list" where
  "value_count col =
     (let vs = filter notna col in map (\<lambda>k. (k, count_list vs k)) (first_seen vs))"

type_synonym sorter = "(cell \<times> nat) list \<Rightarrow> (cell \<times> nat) list"

definition value_counts :: "sorter \<Rightarrow> cell list \<Rightarrow> (cell \<times> nat) list" where
  "value_counts srt col = srt (value_count col)"

definition category_distribution :: "sorter \<Rightarrow> TicketReport \<Rightarrow> py_error + (cell \<times> nat) list" where
  "category_distribution srt self =
     (case getitem (df self) ''category'' category of
        Inl e \<Rightarrow> Inl e
      | Inr col \<Rightarrow> Inr (value_counts srt col))"

subsection \<open>Floating-point arithmetic\<close>

text \<open>
  \<^verbatim>\<open>closure_rate\<close> computes in Python's \<^verbatim>\<open>float\<close>, the binary64 format. A finite double
  is a rational number, and each operation returns the exact result rounded to the
  nearest double, ties to the even significand. \<open>fl\<close> is that rounding, with 53
  significant bits and no bound on the exponent: it agrees with binary64 wherever the
  magnitude of a non-zero result lies between \<open>2 powi (- 1022)\<close> and \<open>2 powi 1024\<close>,
  which holds for every quotient of two list lengths below \<open>2 ^ 1022\<close>.
\<close>

definition rne :: "rat \<Rightarrow> int" where
  "rne x =
     (let f = \<lfloor>x\<rfloor>; d = x - of_int f
      in if d < 1 / 2 then f else if 1 / 2 < d then f + 1 else if even f then f else f + 1)"

definition expo :: "rat \<Rightarrow> int" where
  "expo x =
     (let (p, q) = quotient_of x; k = bitlen p - bitlen q
      in if x < 2 powi k then k - 1 else k)"

definition fl :: "rat \<Rightarrow> rat" where
  "fl x = (if x = 0 then 0 else let u = 2 powi (expo \<bar>x\<bar> - 52) in of_int (rne (x / u)) * u)"

text \<open>
  \<^verbatim>\<open>a / b\<close> on two \<^verbatim>\<open>int\<close>s (true division, correctly rounded), \<^verbatim>\<open>x * y\<close> on floats, and
  \<^verbatim>\<open>round(x, n)\<close> on a float, which rounds the exact value of \<^verbatim>\<open>x\<close> to \<^verbatim>\<open>n\<close> decimals, ties
  to even, and returns the double nearest to that decimal.
\<close>

definition true_div :: "int \<Rightarrow> int \<Rightarrow> rat" where
  "true_div a b = fl (of_int a / of_int b)"

definition fmul :: "rat \<Rightarrow> rat \<Rightarrow> rat" where
  "fmul x y = fl (x * y)"

definition py_round :: "rat \<Rightarrow> nat \<Rightarrow> rat" where
  "py_round x n = fl (of_int (rne (x * 10 ^ n)) / 10 ^ n)"

text \<open>
  \<^verbatim>\<open>closure_rate\<close>: both lengths are taken first, so the status column is read also for
  a frame without rows; then \<^verbatim>\<open>round((closed / total) * 100, 2) if total else 0\<close>.
\<close>

definition closure_rate :: "TicketReport \<Rightarrow> py_error + rat" where
  "closure_rate self =
     (let total = length (rows (df self))
      in case closed_df (df self) of
           Inl e \<Rightarrow> Inl e
         | Inr cdf \<Rightarrow>
             (let closed = length (rows cdf)
              in Inr (if total \<noteq> 0
                      then py_round (fmul (true_div (int closed) (int total)) 100) 2
                      else 0)))"

text \<open>
  \<^verbatim>\<open>summary\<close>: the dictionary display evaluates its six values in order, and the first
  one that raises ends the call.
\<close>

record Summary =
  Total_Tickets :: nat
  Closed_Tickets :: nat
  Closure_Rate :: rat
  Tickets_per_Day :: "(int \<times> nat) list"
  Closed_per_Day :: "(int \<times> nat) list"
  By_Category :: "(cell \<times> nat) list"

definition summary :: "sorter \<Rightarrow> TicketReport \<Rightarrow> py_error + Summary" where
  "summary srt self =
     (let total = length (rows (df self))
      in case closed_df (df self) of
           Inl e \<Rightarrow> Inl e
         | Inr cdf \<Rightarrow>
       (case closure_rate self of
           Inl e \<Rightarrow> Inl e
         | Inr rate \<Rightarrow>
       (case tickets_per_day self of
           Inl e \<Rightarrow> Inl e
         | Inr per_day \<Rightarrow>
       (case closed_tickets_per_day self of
           Inl e \<Rightarrow> Inl e
         | Inr closed_per_day \<Rightarrow>
       (case category_distribution srt self of
           Inl e \<Rightarrow> Inl e
         | Inr cats \<Rightarrow>
             Inr \<lparr>Total_Tickets = total, Closed_Tickets = length (rows cdf),
                  Closure_Rate = rate, Tickets_per_Day = per_day,
                  Closed_per_Day = closed_per_day,
                  By_Category = cats\<rparr>)))))"

section \<open>The driver\<close>

text \<open>
  What the driver touches outside the program: the spreadsheet that \<^verbatim>\<open>pd.read_excel\<close>
  finds at a path (its rows, each a mapping from column label to cell, or the exception
  the read raises); the exception, if any, that writing the spreadsheet of a ticket
  table and a summary, or the document of a summary, to a path raises; the exception,
  if any, that opening a file for reading raises; and the exceptions, if any, that
  connecting to the mail relay, logging in and sending raise.
\<close>

type_synonym row = "(string \<times> cell) list"

record world =
  read_excel :: "string \<Rightarrow> py_error + row list"
  excel_failure :: "string \<Rightarrow> Tickets list \<Rightarrow> Summary \<Rightarrow> py_error option"
  pdf_failure :: "string \<Rightarrow> Summary \<Rightarrow> py_error option"
  open_failure :: "string \<Rightarrow> py_error option"
  connect_failure :: "py_error option"
  login_failure :: "py_error option"
  send_failure :: "py_error option"

text \<open>What a run does to the outside, in order.\<close>

datatype event =
    Printed_Summary Summary
  | Excel_Written string "Tickets list" Summary
  | Pdf_Written string Summary
  | Printed_Exported string string
  | Send_Email_Called "string list"
  | Message_Sent "string list"
  | Printed_Sent

text \<open>
  The names bound at module level when \<^verbatim>\<open>main.py\<close> has been loaded: the seven imports
  and the three classes. A name that is neither bound there nor a builtin raises
  \<^verbatim>\<open>NameError\<close> when it is evaluated.
\<close>

datatype global = Imported | Tickets_class | TicketReport_class | ReportGenarator_class

definition module_globals :: "(string \<times> global) list" where
  "module_globals =
     [(''pd'', Imported), (''datetime'', Imported), (''plt'', Imported), (''FPDF'', Imported),
      (''smtplib'', Imported), (''EmailMessage'', Imported), (''os'', Imported),
      (''Tickets'', Tickets_class), (''TicketReport'', TicketReport_class),
      (''ReportGenarator'', ReportGenarator_class)]"

definition load_global :: "string \<Rightarrow> py_error + global" where
  "load_global name =
     (case map_of module_globals name of None \<Rightarrow> Inl NameError | Some g \<Rightarrow> Inr g)"

text \<open>
  Calling a global with five positional arguments: only \<^verbatim>\<open>Tickets\<close> takes five; a module
  is not callable and the other two classes take fewer, which is a \<^verbatim>\<open>TypeError\<close>.
\<close>

fun call5 ::
  "global \<Rightarrow> parser \<Rightarrow> unicode_lower \<Rightarrow> cell \<Rightarrow> cell \<Rightarrow> cell \<Rightarrow> cell \<Rightarrow> cell \<Rightarrow>
     py_error + Tickets" where
  "call5 Tickets_class conv ucd a b c d e = Tickets_init conv ucd a b c d e"
| "call5 _ conv ucd a b c d e = Inl TypeError"

text \<open>\<^verbatim>\<open>row[label]\<close>: \<^verbatim>\<open>KeyError\<close> when the sheet has no such column.\<close>

definition row_get :: "row \<Rightarrow> string \<Rightarrow> py_error + cell" where
  "row_get r label = (case map_of r label of None \<Rightarrow> Inl KeyError | Some c \<Rightarrow> Inr c)"

record ReportGenarator =
  excel_path :: string
  email_config :: "(string \<times> cell) list"

text \<open>\<^verbatim>\<open>self.email_config = email_config or {}\<close>, with \<^verbatim>\<open>None\<close> as the default.\<close>

definition ReportGenarator_init :: "string \<Rightarrow> (string \<times> cell) list option \<Rightarrow> ReportGenarator" where
  "ReportGenarator_init path cfg =
     \<lparr>excel_path = path, email_config = (case cfg of None \<Rightarrow> [] | Some c \<Rightarrow> c)\<rparr>"

text \<open>
  \<^verbatim>\<open>load_tickets\<close>: the list comprehension evaluates, for each row, first the callee
  \<^verbatim>\<open>Ticket\<close>, then the five subscripts from left to right, then the call.
\<close>

fun load_rows :: "parser \<Rightarrow> unicode_lower \<Rightarrow> row list \<Rightarrow> py_error + Tickets list" where
  "load_rows conv ucd [] = Inr []"
| "load_rows conv ucd (r # rs) =
     (case load_global ''Ticket'' of
        Inl e \<Rightarrow> Inl e
      | Inr callee \<Rightarrow>
     (case row_get r ''Ticket_ID'' of
        Inl e \<Rightarrow> Inl e
      | Inr tid \<Rightarrow>
     (case row_get r ''Date_Opened'' of
        Inl e \<Rightarrow> Inl e
      | Inr dopen \<Rightarrow>
     (case row_get r ''Date_Closed'' of
        Inl e \<Rightarrow> Inl e
      | Inr dclose \<Rightarrow>
     (case row_get r ''Category'' of
        Inl e \<Rightarrow> Inl e
      | Inr cat \<Rightarrow>
     (case row_get r ''Status'' of
        Inl e \<Rightarrow> Inl e
      | Inr st \<Rightarrow>
     (case call5 callee conv ucd tid dopen dclose cat st of
        Inl e \<Rightarrow> Inl e
      | Inr t \<Rightarrow>
     (case load_rows conv ucd rs of
        Inl e \<Rightarrow> Inl e
      | Inr ts \<Rightarrow> Inr (t # ts)))))))))"

definition load_tickets ::
  "world \<Rightarrow> parser \<Rightarrow> unicode_lower \<Rightarrow> ReportGenarator \<Rightarrow> py_error + Tickets list" where
  "load_tickets w conv ucd self =
     (case read_excel w (excel_path self) of
        Inl e \<Rightarrow> Inl e
      | Inr sheet \<Rightarrow> load_rows conv ucd sheet)"

text \<open>
  The two exports compute the summary again and write one file each; the rendering
  and the writing are the libraries', which raise or not as the world says, and the
  event keeps the path and what was rendered.
\<close>

definition export_to_excel ::
  "world \<Rightarrow> sorter \<Rightarrow> TicketReport \<Rightarrow> string \<Rightarrow> event list \<times> (py_error + string)" where
  "export_to_excel w srt report path =
     (case summary srt report of
        Inl e \<Rightarrow> ([], Inl e)
      | Inr s \<Rightarrow>
          (case excel_failure w path (rows (df report)) s of
             Some e \<Rightarrow> ([], Inl e)
           | None \<Rightarrow> ([Excel_Written path (rows (df report)) s], Inr path)))"

definition export_to_pdf ::
  "world \<Rightarrow> sorter \<Rightarrow> TicketReport \<Rightarrow> string \<Rightarrow> event list \<times> (py_error + string)" where
  "export_to_pdf w srt report path =
     (case summary srt report of
        Inl e \<Rightarrow> ([], Inl e)
      | Inr s \<Rightarrow>
          (case pdf_failure w path s of
             Some e \<Rightarrow> ([], Inl e)
           | None \<Rightarrow> ([Pdf_Written path s], Inr path)))"

text \<open>
  \<^verbatim>\<open>send_email\<close>, statement by statement. The message is composed: \<^verbatim>\<open>cfg['from']\<close> and
  \<^verbatim>\<open>cfg['to']\<close> raise \<^verbatim>\<open>KeyError\<close> on a missing key (\<^verbatim>\<open>subject\<close> and \<^verbatim>\<open>body\<close> have defaults).
  Each attachment is opened for reading, in order. The session is opened with
  \<^verbatim>\<open>cfg['smtp_server']\<close> and \<^verbatim>\<open>cfg['smtp_port']\<close>; inside it \<^verbatim>\<open>cfg['password']\<close> is read,
  the login is made and the message is sent. Then the confirmation is printed.
\<close>

definition cfg_get :: "(string \<times> cell) list \<Rightarrow> string \<Rightarrow> py_error + cell" where
  "cfg_get cfg key = (case map_of cfg key of None \<Rightarrow> Inl KeyError | Some v \<Rightarrow> Inr v)"

fun open_all :: "world \<Rightarrow> string list \<Rightarrow> py_error option" where
  "open_all w [] = None"
| "open_all w (file # files) =
     (case open_failure w file of Some e \<Rightarrow> Some e | None \<Rightarrow> open_all w files)"

definition send_email ::
  "world \<Rightarrow> ReportGenarator \<Rightarrow> string list \<Rightarrow> event list \<times> (py_error + unit)" where
  "send_email w self attachments =
     (let cfg = email_config self; called = [Send_Email_Called attachments]
      in case cfg_get cfg ''from'' of
           Inl e \<Rightarrow> (called, Inl e)
         | Inr _ \<Rightarrow>
       (case cfg_get cfg ''to'' of
           Inl e \<Rightarrow> (called, Inl e)
         | Inr _ \<Rightarrow>
       (case open_all w attachments of
           Some e \<Rightarrow> (called, Inl e)
         | None \<Rightarrow>
       (case cfg_get cfg ''smtp_server'' of
           Inl e \<Rightarrow> (called, Inl e)
         | Inr _ \<Rightarrow>
       (case cfg_get cfg ''smtp_port'' of
           Inl e \<Rightarrow> (called, Inl e)
         | Inr _ \<Rightarrow>
       (case connect_failure w of
           Some e \<Rightarrow> (called, Inl e)
         | None \<Rightarrow>
       (case cfg_get cfg ''password'' of
           Inl e \<Rightarrow> (called, Inl e)
         | Inr _ \<Rightarrow>
       (case login_failure w of
           Some e \<Rightarrow> (called, Inl e)
         | None \<Rightarrow>
       (case send_failure w of
           Some e \<Rightarrow> (called, Inl e)
         | None \<Rightarrow> (called @ [Message_Sent attachments, Printed_Sent], Inr ()))))))))))"

text \<open>
  The last statement of \<^verbatim>\<open>generate_report\<close>: \<^verbatim>\<open>if self.email_config:
  self.send_email([excel_path, pdf_path])\<close>. An empty dictionary is false.
\<close>

definition email_step ::
  "world \<Rightarrow> ReportGenarator \<Rightarrow> string \<Rightarrow> string \<Rightarrow> event list \<times> (py_error + unit)" where
  "email_step w self xlsx pdf =
     (if email_config self \<noteq> [] then send_email w self [xlsx, pdf] else ([], Inr ()))"

text \<open>
  \<^verbatim>\<open>generate_report\<close>: load, aggregate, print, export twice with the default paths,
  print, and the email step. An exception ends the run and leaves what was done before
  it.
\<close>

definition generate_report ::
  "world \<Rightarrow> parser \<Rightarrow> unicode_lower \<Rightarrow> sorter \<Rightarrow> ReportGenarator \<Rightarrow>
     event list \<times> (py_error + unit)" where
  "generate_report w conv ucd srt self =
     (case load_tickets w conv ucd self of
        Inl e \<Rightarrow> ([], Inl e)
      | Inr loaded \<Rightarrow>
     (let report = TicketReport_init loaded
      in case summary srt report of
        Inl e \<Rightarrow> ([], Inl e)
      | Inr s \<Rightarrow>
     (let ev1 = [Printed_Summary s]
      in case export_to_excel w srt report ''helpdesk_report.xlsx'' of
        (ev, Inl e) \<Rightarrow> (ev1 @ ev, Inl e)
      | (ev, Inr xlsx) \<Rightarrow>
     (let ev2 = ev1 @ ev
      in case export_to_pdf w srt report ''helpdesk_report.pdf'' of
        (ev, Inl e) \<Rightarrow> (ev2 @ ev, Inl e)
      | (ev, Inr pdf) \<Rightarrow>
     (let ev3 = ev2 @ ev @ [Printed_Exported xlsx pdf]
      in case email_step w self xlsx pdf of (ev, r) \<Rightarrow> (ev3 @ ev, r))))))"

section \<open>Notions used in the properties\<close>

text \<open>A ticket counts as closed when its status is the string \<^verbatim>\<open>closed\<close>.\<close>

definition is_closed :: "Tickets \<Rightarrow> bool" where
  "is_closed t = (status t = ''closed'')"

text \<open>
  The closure rate as the specification words it, \<^verbatim>\<open>round(100 * closedCount /
  totalCount, 2)\<close> and 0 for no ticket: the product is taken first and divided once.
\<close>

definition spec_closure_rate :: "Tickets list \<Rightarrow> rat" where
  "spec_closure_rate ts =
     (let closedCount = int (length (filter is_closed ts)); totalCount = int (length ts)
      in if totalCount = 0 then 0 else py_round (true_div (100 * closedCount) totalCount) 2)"


text \<open>
  The opened dates, or the close dates, of a ticket sequence are uniform when their
  \<^verbatim>\<open>Timestamp\<close>s are all naive or all aware of the same zone.
\<close>

definition opened_uniform :: "Tickets list \<Rightarrow> bool" where
  "opened_uniform ts = one_zone (zones (map date_opened ts))"

definition closed_uniform :: "Tickets list \<Rightarrow> bool" where
  "closed_uniform ts = one_zone (zones (map date_closed ts))"

text \<open>
  What a sort by descending count guarantees: the entries are kept and the counts do
  not increase. A sort is stable when entries with the same count keep their order.
\<close>

definition descending :: "('a \<times> nat) list \<Rightarrow> bool" where
  "descending kvs = sorted_wrt (\<lambda>a b. snd b \<le> snd a) kvs"

definition sorts_descending :: "sorter \<Rightarrow> bool" where
  "sorts_descending srt = (\<forall>kvs. mset (srt kvs) = mset kvs \<and> descending (srt kvs))"

definition stable :: "sorter \<Rightarrow> bool" where
  "stable srt =
     (\<forall>kvs n. filter (\<lambda>kv. snd kv = n) (srt kvs) = filter (\<lambda>kv. snd kv = n) kvs)"

definition stable_sort_values :: sorter where
  "stable_sort_values = sort_key (\<lambda>kv. - int (snd kv))"

text \<open>A sort by descending count that is not stable: it reverses equal counts.\<close>

definition reversing_sort_values :: sorter where
  "reversing_sort_values kvs = rev (sort_key (\<lambda>kv. int (snd kv)) kvs)"

subsection \<open>Sample data\<close>

text \<open>
  A parser that reads a number as nanoseconds since the epoch and rejects every text,
  a Unicode mapping that changes nothing (no sample status has a character outside
  ASCII), and midnight of the day with a given number.
\<close>

definition no_mapping :: unicode_lower where
  "no_mapping s = s"

fun epoch_parser :: parser where
  "epoch_parser (Number n) = Inr (Timestamp n None)"
| "epoch_parser _ = Inl ValueError"

definition midnight :: "int \<Rightarrow> int" where
  "midnight d = d * ns_per_day"

text \<open>
  Three tickets: two opened on day 19723 (2024-01-01), one of them closed the day
  after, and one opened on day 19724 and still open.
\<close>

definition scenario :: "Tickets list" where
  "scenario =
     [\<lparr>ticket_id = Number 1, date_opened = Some (Timestamp (midnight 19723) None),
       date_closed = Some (Timestamp (midnight 19724) None), category = Text ''network'',
       status = ''closed''\<rparr>,
      \<lparr>ticket_id = Number 2, date_opened = Some (Timestamp (midnight 19723) None),
       date_closed = None, category = Text ''network'', status = ''open''\<rparr>,
      \<lparr>ticket_id = Number 3, date_opened = Some (Timestamp (midnight 19724) None),
       date_closed = None, category = Text ''software'', status = ''open''\<rparr>]"

text \<open>A closed and an open ticket, and 160 tickets of which 23 are closed.\<close>

definition closed_ticket :: Tickets where
  "closed_ticket =
     \<lparr>ticket_id = Number 1, date_opened = Some (Timestamp (midnight 19723) None),
      date_closed = Some (Timestamp (midnight 19724) None), category = Text ''network'',
      status = ''closed''\<rparr>"

definition open_ticket :: Tickets where
  "open_ticket =
     \<lparr>ticket_id = Number 2, date_opened = Some (Timestamp (midnight 19723) None),
      date_closed = None, category = Text ''software'', status = ''open''\<rparr>"

definition batch_160 :: "Tickets list" where
  "batch_160 = replicate 23 closed_ticket @ replicate 137 open_ticket"

text \<open>
  The ticket built from the status \<^verbatim>\<open>Closed\<close> and an empty close date, and a ticket marked
  closed whose close date is empty.
\<close>

definition mixed_case_ticket :: Tickets where
  "mixed_case_ticket =
     \<lparr>ticket_id = Number 7, date_opened = Some (Timestamp (midnight 19723) None),
      date_closed = None, category = Text ''network'', status = ''closed''\<rparr>"


text \<open>The ticket built from \<^verbatim>\<open>None\<close> as opened date, and the one built from an empty cell.\<close>

definition unopened_ticket :: Tickets where
  "unopened_ticket =
     \<lparr>ticket_id = Number 9, date_opened = None, date_closed = None,
      category = Text ''network'', status = ''open''\<rparr>"

definition undated_ticket :: Tickets where
  "undated_ticket =
     \<lparr>ticket_id = Number 6, date_opened = Some NaT, date_closed = None,
      category = Text ''network'', status = ''open''\<rparr>"

text \<open>
  A parser that reads the one text \<^verbatim>\<open>2024-01-01T00:00:00+02:00\<close>, to midnight of day
  19723 in the zone two hours east of UTC, and the ticket built with it.
\<close>

fun offset_parser :: parser where
  "offset_parser (Text s) =
     (if s = ''2024-01-01T00:00:00+02:00''
      then Inr (Timestamp (midnight 19723) (Some ''UTC+02:00'')) else Inl ValueError)"
| "offset_parser _ = Inl ValueError"

definition zoned_ticket :: Tickets where
  "zoned_ticket =
     \<lparr>ticket_id = Number 8, date_opened = Some (Timestamp (midnight 19723) (Some ''UTC+02:00'')),
      date_closed = None, category = Text ''network'', status = ''open''\<rparr>"

text \<open>A ticket whose ticket id cell is empty.\<close>

definition anonymous_ticket :: Tickets where
  "anonymous_ticket =
     \<lparr>ticket_id = Missing, date_opened = Some (Timestamp (midnight 19723) None), date_closed = None,
      category = Text ''network'', status = ''open''\<rparr>"

text \<open>A ticket whose category cell is empty.\<close>

definition uncategorised_ticket :: Tickets where
  "uncategorised_ticket =
     \<lparr>ticket_id = Number 4, date_opened = Some (Timestamp (midnight 19723) None),
      date_closed = None, category = Missing, status = ''open''\<rparr>"

text \<open>
  A spreadsheet \<^verbatim>\<open>tickets.xlsx\<close> with one well-formed row, in a world where no write, no
  read and no step of the mail session fails, and the configuration of the program's
  entry point.
\<close>

definition sample_row :: row where
  "sample_row =
     [(''Ticket_ID'', Number 1), (''Date_Opened'', Stamp (midnight 19723)),
      (''Date_Closed'', Missing), (''Category'', Text ''network''), (''Status'', Text ''Open'')]"

definition sample_world :: world where
  "sample_world =
     \<lparr>read_excel = (\<lambda>path. if path = ''tickets.xlsx'' then Inr [sample_row]
                             else Inl FileNotFoundError),
      excel_failure = (\<lambda>path table s. None),
      pdf_failure = (\<lambda>path s. None),
      open_failure = (\<lambda>path. None),
      connect_failure = None,
      login_failure = None,
      send_failure = None\<rparr>"

definition email_settings :: "(string \<times> cell) list" where
  "email_settings =
     [(''from'', Text ''your_email@gmail.com''), (''password'', Text ''your_app_password''),
      (''to'', Text ''manager@company.com''), (''smtp_server'', Text ''smtp.gmail.com''),
      (''smtp_port'', Number 465), (''subject'', Text ''Daily Helpdesk Report''),
      (''body'', Text ''Attached are today's Helpdesk reports (Excel + PDF).'')]"

section \<open>Properties of the arithmetic\<close>

lemma rne_of_int: "rne (of_int n) = n"
  by (simp add: rne_def)

lemma rne_floor: "\<lfloor>x\<rfloor> \<le> rne x" "rne x \<le> \<lfloor>x\<rfloor> + 1"
  by (simp_all add: rne_def Let_def)

lemma rne_mono:
  assumes "x \<le> y"
  shows "rne x \<le> rne y"
proof (cases "\<lfloor>x\<rfloor> = \<lfloor>y\<rfloor>")
  case True
  with assms have "x - of_int \<lfloor>x\<rfloor> \<le> y - of_int \<lfloor>y\<rfloor>" by simp
  with True show ?thesis
    by (auto simp: rne_def Let_def)
next
  case False
  with assms have "\<lfloor>x\<rfloor> < \<lfloor>y\<rfloor>"
    by (meson floor_mono le_less)
  then have "rne x \<le> \<lfloor>y\<rfloor>" using rne_floor(2) [of x] by linarith
  then show ?thesis using rne_floor(1) [of y] by linarith
qed

text \<open>The bit length of a positive integer brackets it between two powers of two.\<close>

lemma bitlen_powi:
  assumes "0 < p"
  shows "(2::rat) powi (bitlen p - 1) \<le> of_int p" and "of_int p < (2::rat) powi bitlen p"
proof -
  from assms have b: "1 \<le> bitlen p"
    by (metis bitlen_eq_zero_iff bitlen_nonneg int_one_le_iff_zero_less less_le not_le)
  have "(2::int) ^ nat (bitlen p - 1) \<le> p" "p < 2 ^ nat (bitlen p)"
    using bitlen_bounds [OF assms] by simp_all
  then have "(of_int (2 ^ nat (bitlen p - 1)) :: rat) \<le> of_int p"
      "(of_int p :: rat) < of_int (2 ^ nat (bitlen p))"
    by (simp_all only: of_int_le_iff of_int_less_iff)
  with b show "(2::rat) powi (bitlen p - 1) \<le> of_int p" "of_int p < (2::rat) powi bitlen p"
    by (simp_all add: power_int_def)
qed

text \<open>\<open>expo x\<close> is the binary exponent of a positive \<open>x\<close>.\<close>

lemma expo_bounds:
  assumes "0 < x"
  shows "2 powi expo x \<le> x" and "x < 2 powi (expo x + 1)"
proof -
  obtain p q where pq: "quotient_of x = (p, q)" by (cases "quotient_of x")
  then have q: "0 < q" by (rule quotient_of_denom_pos)
  have x: "x = of_int p / of_int q" using pq by (rule quotient_of_div)
  with assms q have p: "0 < p" by (simp add: zero_less_divide_iff)
  define k where "k = bitlen p - bitlen q"
  have e: "expo x = (if x < 2 powi k then k - 1 else k)"
    by (simp add: expo_def pq k_def)
  have qpos: "(0::rat) < of_int q" using q by simp
  have lo: "2 powi (k - 1) \<le> x"
  proof -
    have "(2::rat) powi (k - 1) = 2 powi (bitlen p - 1) / 2 powi bitlen q"
      by (simp add: k_def power_int_diff)
    also have "\<dots> \<le> of_int p / 2 powi bitlen q"
      using bitlen_powi(1) [OF p] by (simp add: divide_right_mono)
    also have "\<dots> \<le> of_int p / of_int q"
      using bitlen_powi(2) [OF q] p qpos by (simp add: frac_le)
    finally show ?thesis by (simp add: x)
  qed
  have hi: "x < 2 powi (k + 1)"
  proof -
    have "x = of_int p / of_int q" by (rule x)
    also have "\<dots> < 2 powi bitlen p / of_int q"
      using bitlen_powi(2) [OF p] qpos by (simp add: divide_strict_right_mono)
    also have "\<dots> \<le> 2 powi bitlen p / 2 powi (bitlen q - 1)"
      using bitlen_powi(1) [OF q] by (simp add: frac_le)
    also have "\<dots> = 2 powi (bitlen p - (bitlen q - 1))"
      by (rule power_int_diff [symmetric]) simp
    also have "bitlen p - (bitlen q - 1) = k + 1"
      by (simp add: k_def)
    finally show ?thesis .
  qed
  show "2 powi expo x \<le> x" using lo by (simp add: e)
  show "x < 2 powi (expo x + 1)" using hi by (simp add: e)
qed

lemma expo_mono:
  assumes "0 < x" "x \<le> y"
  shows "expo x \<le> expo y"
proof -
  have "(2::rat) powi expo x < 2 powi (expo y + 1)"
    using expo_bounds(1) [OF assms(1)] expo_bounds(2) [of y] assms by linarith
  then have "expo x < expo y + 1"
    by (smt (verit) power_int_increasing one_le_numeral not_le)
  then show ?thesis by simp
qed

text \<open>A positive number and its rounding lie in the same binade.\<close>

lemma fl_range:
  assumes "0 < x"
  shows "2 powi expo x \<le> fl x" and "fl x \<le> 2 powi (expo x + 1)"
proof -
  define u :: rat where "u = 2 powi (expo x - 52)"
  have u: "0 < u" by (simp add: u_def)
  have f: "fl x = of_int (rne (x / u)) * u"
    using assms by (simp add: fl_def u_def Let_def)
  have a: "2 powi expo x = (2 ^ 52) * u"
    by (simp add: u_def power_int_diff)
  have b: "2 powi (expo x + 1) = (2 ^ 53) * u"
    by (simp add: u_def power_int_diff power_int_add)
  have "2 ^ 52 \<le> x / u"
    using expo_bounds(1) [OF assms] u by (simp add: a pos_le_divide_eq)
  then have "rne (of_int (2 ^ 52)) \<le> rne (x / u)"
    by (intro rne_mono) simp
  then have lo: "(2 ^ 52 :: rat) \<le> of_int (rne (x / u))"
    unfolding rne_of_int by (metis of_int_le_iff of_int_numeral of_int_power)
  have "x / u \<le> 2 ^ 53"
    using expo_bounds(2) [OF assms] u by (simp add: b pos_divide_le_eq)
  then have "rne (x / u) \<le> rne (of_int (2 ^ 53))"
    by (intro rne_mono) simp
  then have hi: "of_int (rne (x / u)) \<le> (2 ^ 53 :: rat)"
    unfolding rne_of_int by (metis of_int_le_iff of_int_numeral of_int_power)
  show "2 powi expo x \<le> fl x"
    using lo u unfolding a f by (rule mult_right_mono [OF _ less_imp_le])
  show "fl x \<le> 2 powi (expo x + 1)"
    using hi u unfolding b f by (rule mult_right_mono [OF _ less_imp_le])
qed

lemma fl_mono_pos:
  assumes "0 < x" "x \<le> y"
  shows "fl x \<le> fl y"
proof (cases "expo x = expo y")
  case True
  define u :: rat where "u = 2 powi (expo x - 52)"
  have u: "0 < u" by (simp add: u_def)
  have "rne (x / u) \<le> rne (y / u)"
    using assms u by (intro rne_mono) (simp add: divide_right_mono)
  then have "(of_int (rne (x / u)) :: rat) * u \<le> of_int (rne (y / u)) * u"
    using u by (simp add: mult_right_mono)
  then show ?thesis
    using assms True by (simp add: fl_def u_def Let_def)
next
  case False
  then have "expo x + 1 \<le> expo y"
    using expo_mono [OF assms] by simp
  then have "(2::rat) powi (expo x + 1) \<le> 2 powi expo y"
    by (simp add: power_int_increasing)
  moreover have "0 < y" using assms by simp
  ultimately show ?thesis
    using fl_range(2) [OF assms(1)] fl_range(1) [of y] by linarith
qed

lemma fl_zero: "fl 0 = 0"
  by (simp add: fl_def)

lemma fl_nonneg:
  assumes "0 \<le> x"
  shows "0 \<le> fl x"
proof (cases "x = 0")
  case True
  then show ?thesis by (simp add: fl_zero)
next
  case False
  with assms have "0 < x" by simp
  from fl_range(1) [OF this] show ?thesis
    by (smt (verit) zero_less_power_int zero_less_numeral less_imp_le order_trans)
qed

text \<open>Rounding to a double is monotone on the non-negative numbers.\<close>

lemma fl_mono:
  assumes "0 \<le> x" "x \<le> y"
  shows "fl x \<le> fl y"
proof (cases "x = 0")
  case True
  with assms show ?thesis by (simp add: fl_zero fl_nonneg)
next
  case False
  with assms show ?thesis by (simp add: fl_mono_pos)
qed

lemma fl_one: "fl 1 = 1"
  by code_simp

lemma fl_hundred: "fl 100 = 100"
  by code_simp

section \<open>Properties of the data frame\<close>

lemma select_mask: "map fst (filter snd (zip xs (map P xs))) = filter P xs"
  by (induction xs) auto

lemma DataFrame_rows: "rows (DataFrame ts) = ts"
  by (simp add: DataFrame_def)

lemma DataFrame_columns:
  "ts \<noteq> [] \<Longrightarrow>
     columns (DataFrame ts) = [''ticket_id'', ''date_opened'', ''date_closed'', ''category'', ''status'']"
  by (simp add: DataFrame_def)

text \<open>
  The \<^verbatim>\<open>date_opened\<close> column is \<^verbatim>\<open>datetime64\<close> when the opened dates are uniform; the
  \<^verbatim>\<open>date_closed\<close> column is when some ticket has a close date and the close dates are
  uniform.
\<close>

lemma infer_dtype_column:
  "infer_dtype (map f ts) =
     (if list_ex (\<lambda>t. f t \<noteq> None) ts \<and> one_zone (zones (map f ts)) then Datetime64
      else Object)"
  by (auto simp: infer_dtype_def list_all_iff list_ex_iff)

lemma DataFrame_dtypes:
  assumes "ts \<noteq> []"
  shows "opened_dtype (DataFrame ts) =
      (if list_ex has_open_date ts \<and> opened_uniform ts then Datetime64 else Object)"
    and "closed_dtype (DataFrame ts) =
      (if list_ex has_close_date ts \<and> closed_uniform ts then Datetime64 else Object)"
  using assms
  by (simp_all add: DataFrame_def infer_dtype_column opened_uniform_def closed_uniform_def
      has_open_date_def [abs_def] has_close_date_def [abs_def])

lemma getitem_nonempty:
  assumes "ts \<noteq> []"
  shows "getitem (DataFrame ts) ''status'' f = Inr (map f ts)"
    and "getitem (DataFrame ts) ''ticket_id'' f = Inr (map f ts)"
    and "getitem (DataFrame ts) ''date_opened'' f = Inr (map f ts)"
    and "getitem (DataFrame ts) ''date_closed'' f = Inr (map f ts)"
    and "getitem (DataFrame ts) ''category'' f = Inr (map f ts)"
  using assms by (simp_all add: getitem_def DataFrame_def)

text \<open>The frame of no ticket has no column, so every subscript raises.\<close>

lemma getitem_empty: "getitem (DataFrame []) name f = Inl KeyError"
  by (simp add: getitem_def DataFrame_def)

lemma closed_df_nonempty:
  assumes "ts \<noteq> []"
  shows "closed_df (DataFrame ts) = Inr ((DataFrame ts)\<lparr>rows := filter is_closed ts\<rparr>)"
  using assms select_mask [where P = is_closed and xs = ts]
  by (simp add: closed_df_def getitem_nonempty select_rows_def DataFrame_rows
      is_closed_def [abs_def] o_def)

lemma closed_df_empty: "closed_df (DataFrame []) = Inl KeyError"
  by (simp add: closed_df_def getitem_empty)

section \<open>The empty ticket sequence\<close>

lemma closure_rate_empty: "closure_rate (TicketReport_init []) = Inl KeyError"
  by (simp add: closure_rate_def TicketReport_init_def closed_df_empty)

text \<open>
  Claim C2. For the empty ticket sequence \<^verbatim>\<open>summary()\<close> should return the summary with
  total 0, closed 0, closure rate 0 and three empty mappings. The program does not:
  the frame built from no ticket has no \<^verbatim>\<open>status\<close> column, and the second entry of the
  summary, the number of closed tickets, subscripts it. The call raises \<^verbatim>\<open>KeyError\<close>.
\<close>

theorem summary_empty_raises: "summary srt (TicketReport_init []) = Inl KeyError"
  by (simp add: summary_def TicketReport_init_def closed_df_empty)

section \<open>The closure rate\<close>

lemma closure_rate_nonempty:
  assumes "ts \<noteq> []"
  shows "closure_rate (TicketReport_init ts) =
    Inr (py_round (fmul (true_div (int (length (filter is_closed ts))) (int (length ts))) 100) 2)"
  using assms by (simp add: closure_rate_def TicketReport_init_def closed_df_nonempty DataFrame_rows)

lemma scenario_counts: "length (filter is_closed scenario) = 1" "length scenario = 3"
  by (simp_all add: scenario_def is_closed_def)

lemma third_rounded:
  "py_round (fmul (true_div (int 1) (int 3)) 100) 2 = fl (3333 / 100)"
  by code_simp

lemma batch_160_counts: "length (filter is_closed batch_160) = 23" "length batch_160 = 160"
  by (simp_all add: batch_160_def is_closed_def closed_ticket_def open_ticket_def)

text \<open>
  With 23 closed tickets of 160 the exact rate is 14.375. The program's order of
  operations gives the double nearest to 14.37, the specification's order the double
  nearest to 14.38.
\<close>

lemma batch_160_code:
  "py_round (fmul (true_div (int 23) (int 160)) 100) 2 = 8089590830664253 / 562949953421312"
  by code_simp

lemma batch_160_spec:
  "py_round (true_div (100 * int 23) (int 160)) 2 = 8095220330198467 / 562949953421312"
  by code_simp

text \<open>
  Claim C1, as the program has it. The claim reads: for every ticket sequence
  \<^verbatim>\<open>closure_rate()\<close> returns \<^verbatim>\<open>round(100 * closedCount / totalCount, 2)\<close>, where
  \<^verbatim>\<open>closedCount\<close> is the number of tickets whose status is \<^verbatim>\<open>closed\<close> and \<^verbatim>\<open>totalCount\<close> the
  length of the sequence. The program divides first: for every non-empty ticket
  sequence it returns \<^verbatim>\<open>round((closedCount / totalCount) * 100, 2)\<close>, the quotient being
  rounded to a double before it is multiplied by 100.
\<close>

theorem closure_rate_formula:
  assumes "ts \<noteq> []"
  shows "closure_rate (TicketReport_init ts) =
    Inr (py_round (fmul (true_div (int (length (filter is_closed ts))) (int (length ts))) 100) 2)"
  using assms by (rule closure_rate_nonempty)

text \<open>On the three tickets of the scenario the rate is the double nearest to 33.33.\<close>

theorem closure_rate_formula_witness:
  "scenario \<noteq> [] \<and> closure_rate (TicketReport_init scenario) = Inr (fl (3333 / 100))"
proof -
  have ne: "scenario \<noteq> []" by (simp add: scenario_def)
  from closure_rate_formula [OF ne] show ?thesis
    using ne unfolding scenario_counts third_rounded by simp
qed

text \<open>
  The formula of the specification fails on 160 tickets of which 23 are closed: the
  program returns 14.37 and the formula gives 14.38.
\<close>

theorem closure_rate_order_counterexample:
  "closure_rate (TicketReport_init batch_160) \<noteq> Inr (spec_closure_rate batch_160)"
proof -
  have ne: "batch_160 \<noteq> []" by (simp add: batch_160_def)
  have "closure_rate (TicketReport_init batch_160) =
      Inr (8089590830664253 / 562949953421312)"
    unfolding closure_rate_nonempty [OF ne] batch_160_counts batch_160_code by (rule refl)
  moreover have "spec_closure_rate batch_160 = 8095220330198467 / 562949953421312"
    unfolding spec_closure_rate_def batch_160_counts Let_def batch_160_spec by simp
  ultimately show ?thesis by simp
qed

subsection \<open>The rate is a percentage\<close>

lemma py_round_bounds:
  assumes "0 \<le> x" "x \<le> 100"
  shows "0 \<le> py_round x 2" "py_round x 2 \<le> 100"
proof -
  have "rne (of_int 0) \<le> rne (x * 10 ^ 2)"
    using assms by (intro rne_mono) simp
  then have lo: "0 \<le> rne (x * 10 ^ 2)" by (simp only: rne_of_int)
  have "rne (x * 10 ^ 2) \<le> rne (of_int 10000)"
    using assms by (intro rne_mono) simp
  then have hi: "rne (x * 10 ^ 2) \<le> 10000" by (simp only: rne_of_int)
  let ?q = "of_int (rne (x * 10 ^ 2)) / 10 ^ 2 :: rat"
  from lo have q0: "0 \<le> ?q" by simp
  from hi have "(of_int (rne (x * 10 ^ 2)) :: rat) \<le> 10000"
    by (metis of_int_le_iff of_int_numeral)
  then have q1: "?q \<le> 100" by simp
  show "0 \<le> py_round x 2"
    unfolding py_round_def using q0 by (rule fl_nonneg)
  have "fl ?q \<le> fl 100" using q0 q1 by (rule fl_mono)
  then show "py_round x 2 \<le> 100"
    by (simp add: py_round_def fl_hundred)
qed

lemma percentage_bounds:
  assumes "0 \<le> c" "c \<le> t" "0 < t"
  shows "0 \<le> fmul (true_div c t) 100" "fmul (true_div c t) 100 \<le> 100"
proof -
  let ?q = "of_int c / of_int t :: rat"
  from assms have q0: "0 \<le> ?q" by simp
  from assms have q1: "?q \<le> 1" by simp
  have d0: "0 \<le> true_div c t"
    unfolding true_div_def using q0 by (rule fl_nonneg)
  have "fl ?q \<le> fl 1" using q0 q1 by (rule fl_mono)
  then have d1: "true_div c t \<le> 1" by (simp add: true_div_def fl_one)
  from d0 have m0: "0 \<le> true_div c t * 100" by simp
  from d1 have m1: "true_div c t * 100 \<le> 100" by simp
  show "0 \<le> fmul (true_div c t) 100"
    unfolding fmul_def using m0 by (rule fl_nonneg)
  have "fl (true_div c t * 100) \<le> fl 100" using m0 m1 by (rule fl_mono)
  then show "fmul (true_div c t) 100 \<le> 100"
    by (simp add: fmul_def fl_hundred)
qed

text \<open>
  Claim C10. For every non-empty ticket sequence \<^verbatim>\<open>closure_rate()\<close> returns a value
  between 0 and 100 inclusive, and the closed count never exceeds the total count.
\<close>

theorem closure_rate_bounds:
  assumes "ts \<noteq> []"
  shows "\<exists>r. closure_rate (TicketReport_init ts) = Inr r \<and> 0 \<le> r \<and> r \<le> 100 \<and>
           length (filter is_closed ts) \<le> length ts"
proof -
  let ?c = "int (length (filter is_closed ts))" and ?t = "int (length ts)"
  have c: "0 \<le> ?c" "?c \<le> ?t" by simp_all
  from assms have t: "0 < ?t" by simp
  note p = percentage_bounds [OF c t]
  show ?thesis
    using py_round_bounds [OF p] by (simp add: closure_rate_nonempty [OF assms])
qed

theorem closure_rate_bounds_witness:
  "scenario \<noteq> [] \<and>
   (\<exists>r. closure_rate (TicketReport_init scenario) = Inr r \<and> 0 \<le> r \<and> r \<le> 100 \<and>
        length (filter is_closed scenario) \<le> length scenario)"
proof -
  have ne: "scenario \<noteq> []" by (simp add: scenario_def)
  from closure_rate_bounds [OF ne] show ?thesis using ne by simp
qed

section \<open>Grouping by day\<close>

lemma present_keys_set: "set (present_keys keys) = {k. Some k \<in> set keys}"
  by (force simp: present_keys_def image_iff)

lemma counted_keys_subset: "set (counted_keys keys vals) \<subseteq> set (present_keys keys)"
  by (auto simp: counted_keys_def present_keys_set dest!: set_zip_leftD)

text \<open>The counts of the groups add up to the rows that have both a key and a value.\<close>

lemma groupby_count_sum:
  "sum_list (map snd (groupby_count keys vals)) = length (counted_keys keys vals)"
proof -
  let ?ks = "sort (remdups (present_keys keys))"
  have "sum_list (map snd (groupby_count keys vals)) =
      sum_list (map (count_list (counted_keys keys vals)) ?ks)"
    by (simp add: groupby_count_def o_def)
  also have "\<dots> = sum (count_list (counted_keys keys vals)) (set ?ks)"
    by (rule sum_list_distinct_conv_sum_set) simp
  also have "\<dots> = length (counted_keys keys vals)"
    by (rule sum_count_set) (use counted_keys_subset [of keys vals] in simp_all)
  finally show ?thesis .
qed

lemma counted_keys_length:
  "length (counted_keys (map f ts) (map g ts)) =
     length (filter (\<lambda>t. f t \<noteq> None \<and> notna (g t)) ts)"
  by (induction ts) (auto simp: counted_keys_def present_keys_def)

lemma stamp_date_None: "stamp_date s = None \<longleftrightarrow> s = NaT"
  by (cases s) simp_all

text \<open>
  \<^verbatim>\<open>tickets_per_day\<close> needs a ticket whose opened date is not \<^verbatim>\<open>None\<close>, and uniform opened
  dates: when naive and aware time stamps or two zones meet, or all is \<^verbatim>\<open>None\<close>, the
  \<^verbatim>\<open>date_opened\<close> column is not \<^verbatim>\<open>datetime64\<close> and \<^verbatim>\<open>.dt\<close> raises.
\<close>

lemma midnight_date: "date_of (midnight d) = d"
  by (simp add: date_of_def midnight_def ns_per_day_def)

lemma tickets_per_day_nonempty:
  assumes "ts \<noteq> []"
  shows "tickets_per_day (TicketReport_init ts) =
     (if list_ex has_open_date ts \<and> opened_uniform ts
      then Inr (groupby_count (map (\<lambda>t. stamp_date (stored (date_opened t))) ts)
             (map ticket_id ts))
      else Inl AttributeError)"
  using assms
  by (simp add: tickets_per_day_def TicketReport_init_def getitem_nonempty dt_date_def o_def
      DataFrame_dtypes)

text \<open>
  \<^verbatim>\<open>closed_tickets_per_day\<close> needs a ticket with a close date, and uniform close dates:
  otherwise the \<^verbatim>\<open>date_closed\<close> column is not \<^verbatim>\<open>datetime64\<close> and \<^verbatim>\<open>.dt\<close> raises.
\<close>

lemma closed_tickets_per_day_nonempty:
  assumes "ts \<noteq> []"
  shows "closed_tickets_per_day (TicketReport_init ts) =
     (if list_ex has_close_date ts \<and> closed_uniform ts
      then Inr (groupby_count (map (\<lambda>t. stamp_date (stored (date_closed t))) (filter is_closed ts))
            (map ticket_id (filter is_closed ts)))
      else Inl AttributeError)"
  using assms
  by (simp add: closed_tickets_per_day_def TicketReport_init_def closed_df_nonempty
        getitem_def DataFrame_columns DataFrame_dtypes dt_date_def o_def)

lemma closed_tickets_per_day_dated:
  assumes "list_ex has_close_date ts" and "closed_uniform ts"
  shows "closed_tickets_per_day (TicketReport_init ts) =
     Inr (groupby_count (map (\<lambda>t. stamp_date (stored (date_closed t))) (filter is_closed ts))
            (map ticket_id (filter is_closed ts)))"
proof -
  from assms have "ts \<noteq> []" by auto
  then show ?thesis using assms by (simp add: closed_tickets_per_day_nonempty)
qed

text \<open>
  A text with a UTC offset gives a ticket whose opened date is aware of a zone; next
  to a ticket with a naive opened date, \<^verbatim>\<open>tickets_per_day\<close> raises.
\<close>

lemma tickets_per_day_dated:
  assumes "list_ex has_open_date ts" and "opened_uniform ts"
  shows "tickets_per_day (TicketReport_init ts) =
     Inr (groupby_count (map (\<lambda>t. stamp_date (stored (date_opened t))) ts) (map ticket_id ts))"
proof -
  from assms have "ts \<noteq> []" by auto
  then show ?thesis using assms by (simp add: tickets_per_day_nonempty)
qed

lemma zoned_ticket_constructed:
  "Tickets_init offset_parser ucd (Number 8) (Text ''2024-01-01T00:00:00+02:00'') Missing
     (Text ''network'') (Text ''open'') = Inr zoned_ticket"
  by (simp add: Tickets_init_def zoned_ticket_def lower_def is_ascii_def char_lower_def)

lemma mixed_zones_raise:
  "tickets_per_day (TicketReport_init [open_ticket, zoned_ticket]) = Inl AttributeError"
  by (simp add: tickets_per_day_nonempty opened_uniform_def open_ticket_def zoned_ticket_def)

text \<open>A ticket constructed from \<^verbatim>\<open>None\<close> as opened date, alone, makes it raise too.\<close>

lemma unopened_ticket_constructed:
  "Tickets_init conv ucd (Number 9) PyNone PyNone (Text ''network'') (Text ''open'') =
     Inr unopened_ticket"
  by (simp add: Tickets_init_def unopened_ticket_def lower_def is_ascii_def char_lower_def)

lemma unopened_raises:
  "tickets_per_day (TicketReport_init [unopened_ticket]) = Inl AttributeError"
  by (simp add: tickets_per_day_nonempty has_open_date_def unopened_ticket_def)

text \<open>
  Claim C4, as the program has it. The claim reads: for every ticket sequence the
  counts of \<^verbatim>\<open>tickets_per_day()\<close> sum to the number of tickets and the counts of
  \<^verbatim>\<open>closed_tickets_per_day()\<close> sum to the number of tickets with status \<^verbatim>\<open>closed\<close>. The
  grouping drops a row without a date and the count skips a row without a ticket id:
  when some ticket's opened date is not \<^verbatim>\<open>None\<close> (as in every non-empty sequence that
  comes from a spreadsheet) and the opened dates are all naive or all in one time
  zone, the counts of \<^verbatim>\<open>tickets_per_day()\<close> sum to the number of tickets that have an
  opened date and a ticket id; and when some ticket's close date is not \<^verbatim>\<open>None\<close> and
  the close dates are all naive or all in one time zone, the counts of
  \<^verbatim>\<open>closed_tickets_per_day()\<close> sum to the number of closed tickets that have a close date
  and a ticket id.
\<close>

theorem per_day_sums:
  "(list_ex has_open_date ts \<and> opened_uniform ts \<longrightarrow>
      (\<exists>m. tickets_per_day (TicketReport_init ts) = Inr m \<and>
           sum_list (map snd m) =
             length (filter (\<lambda>t. stored (date_opened t) \<noteq> NaT \<and> notna (ticket_id t)) ts))) \<and>
   (list_ex has_close_date ts \<and> closed_uniform ts \<longrightarrow>
      (\<exists>m. closed_tickets_per_day (TicketReport_init ts) = Inr m \<and>
           sum_list (map snd m) =
             length (filter (\<lambda>t. is_closed t \<and> stored (date_closed t) \<noteq> NaT \<and>
                         notna (ticket_id t)) ts)))"
  by (simp add: tickets_per_day_dated closed_tickets_per_day_dated groupby_count_sum
      counted_keys_length stamp_date_None)

text \<open>On the scenario the sums are 3, the total, and 1, the closed count.\<close>

theorem per_day_sums_witness:
  "list_ex has_open_date scenario \<and> opened_uniform scenario \<and>
   list_ex has_close_date scenario \<and> closed_uniform scenario \<and>
   (\<exists>m. tickets_per_day (TicketReport_init scenario) = Inr m \<and> sum_list (map snd m) = 3) \<and>
   (\<exists>m. closed_tickets_per_day (TicketReport_init scenario) = Inr m \<and>
        sum_list (map snd m) = 1)"
proof -
  have ne: "list_ex has_open_date scenario" and cd: "list_ex has_close_date scenario"
    and ou: "opened_uniform scenario" and cu: "closed_uniform scenario"
    by (simp_all add: scenario_def has_open_date_def has_close_date_def opened_uniform_def
        closed_uniform_def)
  have a: "length (filter (\<lambda>t. stored (date_opened t) \<noteq> NaT \<and> notna (ticket_id t)) scenario)
      = 3"
    by (simp add: scenario_def)
  have b: "length (filter (\<lambda>t. is_closed t \<and> stored (date_closed t) \<noteq> NaT \<and>
                         notna (ticket_id t)) scenario) = 1"
    by (simp add: scenario_def is_closed_def)
  from per_day_sums [of scenario] show ?thesis
    using ne cd ou cu unfolding a b by simp
qed

lemma scenario_per_day:
  "tickets_per_day (TicketReport_init scenario) = Inr [(19723, 2), (19724, 1)]"
  "closed_tickets_per_day (TicketReport_init scenario) = Inr [(19724, 1)]"
  by code_simp+

text \<open>
  The claim fails on two closed tickets of which one has no close date: the closed
  count is 2 and the only group has count 1. It fails on three tickets of which one
  has no opened date and one no ticket id: the only group has count 1.
\<close>

theorem per_day_counterexample:
  "closed_tickets_per_day (TicketReport_init [closed_ticket, mixed_case_ticket]) =
     Inr [(19724, 1)] \<and>
   length (filter is_closed [closed_ticket, mixed_case_ticket]) = 2 \<and>
   tickets_per_day (TicketReport_init [undated_ticket, anonymous_ticket, open_ticket]) =
     Inr [(19723, 1)] \<and>
   length [undated_ticket, anonymous_ticket, open_ticket] = 3"
  by code_simp

section \<open>The category distribution\<close>

lemma first_seen_set: "set (first_seen xs) = set xs"
  by (induction xs) auto

lemma first_seen_distinct: "distinct (first_seen xs)"
  by (induction xs) (auto simp: first_seen_set)

lemma count_list_filter: "P k \<Longrightarrow> count_list (filter P xs) k = count_list xs k"
  by (induction xs) auto

lemma value_count_keys: "map fst (value_count col) = first_seen (filter notna col)"
  by (simp add: value_count_def Let_def o_def)

lemma value_count_entries:
  assumes "(k, n) \<in> set (value_count col)"
  shows "notna k" and "n = count_list col k"
proof -
  from assms have k: "k \<in> set (filter notna col)" and n: "n = count_list (filter notna col) k"
    by (auto simp: value_count_def Let_def first_seen_set)
  from k show "notna k" by simp
  then show "n = count_list col k" using n by (simp add: count_list_filter)
qed

text \<open>Before the sort, the values with a given count stand in first-seen order.\<close>

lemma value_count_ties:
  "map fst (filter (\<lambda>kv. snd kv = n) (value_count col)) =
     filter (\<lambda>c. count_list col c = n) (first_seen (filter notna col))"
proof -
  have "map fst (filter (\<lambda>kv. snd kv = n) (value_count col)) =
      filter (\<lambda>c. count_list (filter notna col) c = n) (first_seen (filter notna col))"
    by (simp add: value_count_def Let_def filter_map o_def)
  also have "\<dots> = filter (\<lambda>c. count_list col c = n) (first_seen (filter notna col))"
    by (rule filter_cong) (auto simp: first_seen_set count_list_filter)
  finally show ?thesis .
qed

lemma category_distribution_nonempty:
  assumes "ts \<noteq> []"
  shows "category_distribution srt (TicketReport_init ts) = Inr (srt (value_count (map category ts)))"
  using assms
  by (simp add: category_distribution_def TicketReport_init_def getitem_nonempty value_counts_def)

text \<open>The insertion sort on the negated count is a stable sort by descending count.\<close>

lemma stable_sort_values_desc: "sorts_descending stable_sort_values"
proof -
  have "descending (stable_sort_values kvs)" for kvs
  proof -
    have "sorted (map (\<lambda>kv. - int (snd kv)) (sort_key (\<lambda>kv. - int (snd kv)) kvs))"
      by (rule sorted_sort_key)
    then show ?thesis
      by (simp add: descending_def stable_sort_values_def sorted_map sorted_wrt_iff_nth_less)
  qed
  then show ?thesis
    by (simp add: sorts_descending_def stable_sort_values_def)
qed

lemma stable_sort_values_stable: "stable stable_sort_values"
proof -
  have "filter (\<lambda>kv. snd kv = n) (sort_key (\<lambda>kv. - int (snd kv)) kvs) =
        filter (\<lambda>kv. snd kv = n) kvs" for n and kvs :: "(cell \<times> nat) list"
    using sort_key_stable [of "\<lambda>kv. - int (snd kv)" "- int n" kvs]
    by simp
  then show ?thesis by (simp add: stable_def stable_sort_values_def)
qed

lemma scenario_category_column:
  "map category scenario = [Text ''network'', Text ''network'', Text ''software'']"
  by (simp add: scenario_def)

lemma scenario_keys:
  "set (filter notna [Text ''network'', Text ''network'', Text ''software'']) =
     {Text ''network'', Text ''software''}"
  by simp

lemma scenario_first_seen:
  "first_seen (filter notna [Text ''network'', Text ''network'', Text ''software'']) =
     [Text ''network'', Text ''software'']"
  by code_simp

lemma scenario_ties:
  "filter (\<lambda>c. count_list [Text ''network'', Text ''network'', Text ''software''] c = 2)
       [Text ''network'', Text ''software''] = [Text ''network'']"
  by code_simp

lemma scenario_categories:
  "category_distribution stable_sort_values (TicketReport_init scenario) =
     Inr [(Text ''network'', 2), (Text ''software'', 1)]"
  by code_simp

text \<open>
  The order of equal counts is the sort's: on two categories with one ticket each the
  stable sort keeps the first-seen order, and a sort that reverses equal counts, which
  also sorts by descending count, does not.
\<close>

lemma reversing_sort_values_desc: "sorts_descending reversing_sort_values"
proof -
  have "descending (reversing_sort_values kvs)" for kvs
  proof -
    have "sorted (map (\<lambda>kv. int (snd kv)) (sort_key (\<lambda>kv. int (snd kv)) kvs))"
      by (rule sorted_sort_key)
    then have "sorted_wrt (\<lambda>a b. snd a \<le> snd b) (sort_key (\<lambda>kv. int (snd kv)) kvs)"
      by (simp add: sorted_map)
    then show ?thesis
      by (simp add: descending_def reversing_sort_values_def sorted_wrt_rev)
  qed
  then show ?thesis
    by (simp add: sorts_descending_def reversing_sort_values_def)
qed

lemma tie_order_depends_on_sort:
  "category_distribution stable_sort_values (TicketReport_init [closed_ticket, open_ticket]) =
     Inr [(Text ''network'', 1), (Text ''software'', 1)]"
  "category_distribution reversing_sort_values (TicketReport_init [closed_ticket, open_ticket]) =
     Inr [(Text ''software'', 1), (Text ''network'', 1)]"
  by code_simp+

text \<open>
  Claim C5, as the program has it. The claim reads: for every ticket sequence
  \<^verbatim>\<open>category_distribution()\<close> maps each distinct category of the sequence to its number
  of occurrences, every ticket's category being a key exactly once, ordered by
  descending count with ties in first-seen order. \<^verbatim>\<open>value_counts()\<close> leaves missing
  values out: for every non-empty ticket sequence the keys are the distinct categories
  that are not missing, each once, each with its number of occurrences, in descending
  order of count; among equal counts the order is the one the library's sort leaves,
  which is the first-seen order whenever that sort is stable.
\<close>

theorem category_distribution_counts:
  assumes "ts \<noteq> []" and "sorts_descending srt"
  shows "\<exists>kvs. category_distribution srt (TicketReport_init ts) = Inr kvs \<and>
           distinct (map fst kvs) \<and>
           set (map fst kvs) = set (filter notna (map category ts)) \<and>
           (\<forall>k n. (k, n) \<in> set kvs \<longrightarrow> n = count_list (map category ts) k) \<and>
           descending kvs \<and>
           (stable srt \<longrightarrow>
             (\<forall>n. map fst (filter (\<lambda>kv. snd kv = n) kvs) =
                  filter (\<lambda>c. count_list (map category ts) c = n)
                    (first_seen (filter notna (map category ts)))))"
proof -
  let ?vc = "value_count (map category ts)"
  let ?kvs = "srt ?vc"
  from assms(2) have m: "mset ?kvs = mset ?vc" and d: "descending ?kvs"
    by (simp_all add: sorts_descending_def)
  from m have s: "set ?kvs = set ?vc" by (rule mset_eq_setD)
  from m have "mset (map fst ?kvs) = mset (map fst ?vc)" by simp
  then have "distinct (map fst ?kvs) = distinct (map fst ?vc)"
    by (rule mset_eq_imp_distinct_iff)
  then have 1: "distinct (map fst ?kvs)"
    by (simp add: value_count_keys first_seen_distinct)
  have 2: "set (map fst ?kvs) = set (filter notna (map category ts))"
    using s value_count_keys [of "map category ts"] first_seen_set [of "filter notna (map category ts)"]
    by (metis set_map)
  have 3: "\<forall>k n. (k, n) \<in> set ?kvs \<longrightarrow> n = count_list (map category ts) k"
    using s value_count_entries(2) by blast
  have 4: "stable srt \<longrightarrow>
             (\<forall>n. map fst (filter (\<lambda>kv. snd kv = n) ?kvs) =
                  filter (\<lambda>c. count_list (map category ts) c = n)
                    (first_seen (filter notna (map category ts))))"
    by (simp add: stable_def value_count_ties)
  show ?thesis
    using 1 2 3 4 d by (simp add: category_distribution_nonempty [OF assms(1)])
qed

text \<open>
  On the scenario, with the stable sort: the keys are \<^verbatim>\<open>network\<close> and \<^verbatim>\<open>software\<close>, and
  \<^verbatim>\<open>network\<close> is the one key with count 2.
\<close>

theorem category_distribution_counts_witness:
  "scenario \<noteq> [] \<and> sorts_descending stable_sort_values \<and> stable stable_sort_values \<and>
   (\<exists>kvs. category_distribution stable_sort_values (TicketReport_init scenario) = Inr kvs \<and>
      distinct (map fst kvs) \<and>
      set (map fst kvs) = {Text ''network'', Text ''software''} \<and>
      descending kvs \<and>
      map fst (filter (\<lambda>kv. snd kv = 2) kvs) = [Text ''network''])"
proof -
  have ne: "scenario \<noteq> []" by (simp add: scenario_def)
  from category_distribution_counts [OF ne stable_sort_values_desc]
  obtain kvs where k1: "category_distribution stable_sort_values (TicketReport_init scenario) = Inr kvs"
    and k2: "distinct (map fst kvs)"
    and k3: "set (map fst kvs) = set (filter notna (map category scenario))"
    and k4: "descending kvs"
    and k5: "stable stable_sort_values \<longrightarrow>
             (\<forall>n. map fst (filter (\<lambda>kv. snd kv = n) kvs) =
                  filter (\<lambda>c. count_list (map category scenario) c = n)
                    (first_seen (filter notna (map category scenario))))"
    by blast
  from k5 stable_sort_values_stable
  have "map fst (filter (\<lambda>kv. snd kv = 2) kvs) =
                  filter (\<lambda>c. count_list (map category scenario) c = 2)
                    (first_seen (filter notna (map category scenario)))"
    by blast
  then have t: "map fst (filter (\<lambda>kv. snd kv = 2) kvs) = [Text ''network'']"
    by (simp only: scenario_category_column scenario_first_seen scenario_ties)
  have s: "set (map fst kvs) = {Text ''network'', Text ''software''}"
    using k3 by (simp only: scenario_category_column scenario_keys)
  have "\<exists>kvs. category_distribution stable_sort_values (TicketReport_init scenario) = Inr kvs \<and>
      distinct (map fst kvs) \<and>
      set (map fst kvs) = {Text ''network'', Text ''software''} \<and>
      descending kvs \<and>
      map fst (filter (\<lambda>kv. snd kv = 2) kvs) = [Text ''network'']"
    using k1 k2 s k4 t by (intro exI [of _ kvs] conjI)
  with ne stable_sort_values_desc stable_sort_values_stable show ?thesis
    by (intro conjI)
qed

text \<open>
  The claim fails on a ticket whose category cell is empty: its category is no key of
  the distribution, which is empty.
\<close>

theorem missing_category_counterexample:
  "category_distribution stable_sort_values (TicketReport_init [uncategorised_ticket]) = Inr [] \<and>
   category uncategorised_ticket = Missing"
  by code_simp

section \<open>The summary\<close>

lemma summary_dated:
  assumes "list_ex has_open_date ts" and "opened_uniform ts"
    and "list_ex has_close_date ts" and "closed_uniform ts"
  shows "\<exists>rate per_day closed_per_day cats.
     summary srt (TicketReport_init ts) =
       Inr \<lparr>Total_Tickets = length ts, Closed_Tickets = length (filter is_closed ts),
            Closure_Rate = rate, Tickets_per_Day = per_day, Closed_per_Day = closed_per_day,
            By_Category = cats\<rparr>"
proof -
  from assms have ne: "ts \<noteq> []" by auto
  have c: "closed_df (df (TicketReport_init ts)) = Inr ((DataFrame ts)\<lparr>rows := filter is_closed ts\<rparr>)"
    using ne by (simp add: TicketReport_init_def closed_df_nonempty)
  have r: "rows (df (TicketReport_init ts)) = ts"
    by (simp add: TicketReport_init_def DataFrame_rows)
  show ?thesis
    unfolding summary_def Let_def c r
    using assms
    by (simp add: closure_rate_nonempty [OF ne] tickets_per_day_nonempty [OF ne]
        closed_tickets_per_day_nonempty [OF ne] category_distribution_nonempty [OF ne])
qed

text \<open>
  The summary of the scenario: 3 tickets, 1 closed, the double nearest to 33.33, two
  days of opening, one of closing, two categories.
\<close>

lemma scenario_summary:
  "summary stable_sort_values (TicketReport_init scenario) =
     Inr \<lparr>Total_Tickets = 3, Closed_Tickets = 1,
          Closure_Rate = 2345390243441541 / 70368744177664,
          Tickets_per_Day = [(19723, 2), (19724, 1)], Closed_per_Day = [(19724, 1)],
          By_Category = [(Text ''network'', 2), (Text ''software'', 1)]\<rparr>"
  by code_simp

text \<open>Without any close date in the sequence the summary raises.\<close>

lemma summary_undated:
  assumes "ts \<noteq> []" "\<not> list_ex has_close_date ts"
  shows "summary srt (TicketReport_init ts) = Inl AttributeError"
proof -
  have c: "closed_df (df (TicketReport_init ts)) = Inr ((DataFrame ts)\<lparr>rows := filter is_closed ts\<rparr>)"
    using assms(1) by (simp add: TicketReport_init_def closed_df_nonempty)
  show ?thesis
    unfolding summary_def Let_def c
    using assms
    by (simp add: closure_rate_nonempty tickets_per_day_nonempty closed_tickets_per_day_nonempty)
qed

subsection \<open>A closed ticket without close date\<close>

lemma lower_Closed: "lower ucd ''Closed'' = ''closed''"
proof -
  have "list_all is_ascii ''Closed''" by code_simp
  moreover have "map char_lower ''Closed'' = ''closed''" by code_simp
  ultimately show ?thesis by (simp only: lower_def if_True)
qed

text \<open>
  A status that is \<^verbatim>\<open>closed\<close> up to letter case and an empty close date give a ticket
  that counts as closed and has no close date.
\<close>

lemma mixed_case_constructed:
  assumes "lower ucd s = ''closed''"
    and "Tickets_init conv ucd tid dopen Missing cat (Text s) = Inr t"
  shows "is_closed t" and "date_closed t = None"
  using assms by (auto simp: Tickets_init_def is_closed_def split: sum.splits)

lemma groupby_count_drop_missing:
  assumes "length ks = length vs"
  shows "groupby_count (ks @ None # ks') (vs @ v # vs') = groupby_count (ks @ ks') (vs @ vs')"
  using assms by (simp add: groupby_count_def counted_keys_def present_keys_def)

lemma zones_drop_None: "zones (xs @ None # ys) = zones (xs @ ys)"
  by (induction xs rule: zones.induct) simp_all

text \<open>
  Where another ticket has a close date, a ticket without one is in no group: the
  result is the same with and without it.
\<close>

lemma undated_in_no_bucket:
  assumes "list_ex has_close_date (xs @ ys)" and "date_closed t = None"
  shows "closed_tickets_per_day (TicketReport_init (xs @ t # ys)) =
         closed_tickets_per_day (TicketReport_init (xs @ ys))"
proof -
  from assms(1) have d: "list_ex has_close_date (xs @ t # ys)" by auto
  from assms(1) have ne: "xs @ ys \<noteq> []" by auto
  have u: "closed_uniform (xs @ t # ys) = closed_uniform (xs @ ys)"
    using assms(2) zones_drop_None [of "map date_closed xs" "map date_closed ys"]
    by (simp add: closed_uniform_def)
  have g: "groupby_count
         (map (\<lambda>t. stamp_date (stored (date_closed t))) (filter is_closed xs) @ None #
          map (\<lambda>t. stamp_date (stored (date_closed t))) (filter is_closed ys))
         (map ticket_id (filter is_closed xs) @ ticket_id t # map ticket_id (filter is_closed ys)) =
       groupby_count
         (map (\<lambda>t. stamp_date (stored (date_closed t))) (filter is_closed xs) @
          map (\<lambda>t. stamp_date (stored (date_closed t))) (filter is_closed ys))
         (map ticket_id (filter is_closed xs) @ map ticket_id (filter is_closed ys))"
    by (rule groupby_count_drop_missing) simp
  show ?thesis
    using assms d u g
    by (simp add: closed_tickets_per_day_nonempty [OF ne] closed_tickets_per_day_nonempty)
qed

text \<open>
  Claim C3. A ticket whose status differs from \<^verbatim>\<open>closed\<close> only in letter case and whose
  close date is absent should be counted in the summary's closed count and be in no
  group of \<^verbatim>\<open>closed_tickets_per_day()\<close>. On the sequence of that one ticket the program
  does neither: no ticket has a close date, the \<^verbatim>\<open>date_closed\<close> column holds only \<^verbatim>\<open>None\<close>
  and is not \<^verbatim>\<open>datetime64\<close>, and both \<^verbatim>\<open>closed_tickets_per_day()\<close> and \<^verbatim>\<open>summary()\<close> raise
  \<^verbatim>\<open>AttributeError\<close> at \<^verbatim>\<open>.dt\<close>.
\<close>

theorem mixed_case_undated_raises:
  "Tickets_init conv ucd (Number 7) (Stamp (midnight 19723)) Missing (Text ''network'')
     (Text ''Closed'') = Inr mixed_case_ticket \<and>
   closed_tickets_per_day (TicketReport_init [mixed_case_ticket]) = Inl AttributeError \<and>
   summary srt (TicketReport_init [mixed_case_ticket]) = Inl AttributeError"
proof -
  have u: "\<not> list_ex has_close_date [mixed_case_ticket]"
    by (simp add: has_close_date_def mixed_case_ticket_def)
  show ?thesis
    using u
    by (simp add: Tickets_init_def lower_Closed mixed_case_ticket_def summary_undated
        closed_tickets_per_day_nonempty)
qed

section \<open>The ticket constructor\<close>

lemma char_lower_idem: "char_lower (char_lower c) = char_lower c"
  by (simp add: char_lower_def Let_def)

lemma char_lower_ascii: "is_ascii c \<Longrightarrow> is_ascii (char_lower c)"
  by (auto simp: char_lower_def is_ascii_def Let_def)


lemma lower_idem_ascii: "list_all is_ascii s \<Longrightarrow> lower ucd (lower ucd s) = lower ucd s"
  by (simp add: lower_def list_all_iff char_lower_ascii char_lower_idem)

lemma lower_open: "lower ucd ''Open'' = ''open''"
proof -
  have "list_all is_ascii ''Open''" by code_simp
  moreover have "map char_lower ''Open'' = ''open''" by code_simp
  ultimately show ?thesis by (simp only: lower_def if_True)
qed

lemma map_sum_Some_Inl: "map_sum id Some x = Inl e \<longleftrightarrow> x = Inl e"
  by (cases x) auto

lemma map_sum_Some_Inr: "map_sum id Some x = Inr y \<longleftrightarrow> (\<exists>d. x = Inr d \<and> y = Some d)"
  by (cases x) auto

text \<open>
  Claim C6, as the program has it. The claim reads: construction fails with a
  \<^verbatim>\<open>ParseError\<close> if and only if the opened date is missing or unparseable, and succeeds
  whenever the opened date is present and parseable. The program has no check of its
  own: construction fails exactly when \<^verbatim>\<open>pd.to_datetime\<close> raises on the opened date, or
  raises on the close date, or the status has no \<^verbatim>\<open>lower\<close> method because it is not a
  text. \<^verbatim>\<open>pd.to_datetime\<close> does not raise on \<^verbatim>\<open>None\<close> (it returns \<^verbatim>\<open>None\<close>), on a missing
  value (it returns \<^verbatim>\<open>NaT\<close>) nor on a \<^verbatim>\<open>Timestamp\<close>; on a text or a number it raises when
  the library's parser does.
\<close>

theorem Tickets_init_fails_iff:
  "(isl (Tickets_init conv ucd tid dopen dclose cat st) \<longleftrightarrow>
      isl (to_datetime conv dopen) \<or> isl (to_datetime conv dclose) \<or> isl (str_lower ucd st)) \<and>
   to_datetime conv PyNone = Inr None \<and>
   to_datetime conv Missing = Inr (Some NaT) \<and>
   to_datetime conv (Stamp ns) = Inr (Some (Timestamp ns None)) \<and>
   to_datetime conv (Text s) = map_sum id Some (conv (Text s)) \<and>
   to_datetime conv (Number n) = map_sum id Some (conv (Number n)) \<and>
   (isl (str_lower ucd st) \<longleftrightarrow> (case st of Text s \<Rightarrow> False | _ \<Rightarrow> True))"
  by (cases dclose; cases st)
     (auto simp: Tickets_init_def map_sum_Some_Inl map_sum_Some_Inr split: sum.splits)

text \<open>
  Three constructions that fail: an opened date the parser rejects, a close date the
  parser rejects, and an empty status cell.
\<close>

theorem Tickets_init_fails_iff_witness:
  "isl (Tickets_init epoch_parser no_mapping (Number 1) (Text ''tomorrow'') Missing
        (Text ''network'') (Text ''open'')) \<and>
   isl (Tickets_init epoch_parser no_mapping (Number 1) (Stamp (midnight 19723)) (Text ''soon'')
        (Text ''network'') (Text ''open'')) \<and>
   isl (Tickets_init epoch_parser no_mapping (Number 1) (Stamp (midnight 19723)) Missing
        (Text ''network'') Missing)"
  using Tickets_init_fails_iff [of epoch_parser no_mapping "Number 1" "Text ''tomorrow''" Missing
      "Text ''network''" "Text ''open''"]
    Tickets_init_fails_iff [of epoch_parser no_mapping "Number 1" "Stamp (midnight 19723)"
      "Text ''soon''" "Text ''network''" "Text ''open''"]
    Tickets_init_fails_iff [of epoch_parser no_mapping "Number 1" "Stamp (midnight 19723)" Missing
      "Text ''network''" Missing]
  by simp

text \<open>
  The claim fails in both directions: with an empty opened date the construction
  succeeds, and with an opened date that is present and an empty status cell it fails.
\<close>

theorem missing_opened_date_counterexample:
  "Tickets_init epoch_parser no_mapping (Number 6) Missing Missing (Text ''network'')
     (Text ''Open'') = Inr undated_ticket \<and>
   Tickets_init epoch_parser no_mapping (Number 6) (Stamp (midnight 19723)) Missing
     (Text ''network'') Missing = Inl AttributeError"
  by (simp add: Tickets_init_def undated_ticket_def lower_open)





section \<open>The driver's run\<close>

text \<open>
  The class is named \<^verbatim>\<open>Tickets\<close> and \<^verbatim>\<open>load_tickets\<close> calls \<^verbatim>\<open>Ticket\<close>, which no statement
  of the module binds.
\<close>

lemma load_global_Ticket: "load_global ''Ticket'' = Inl NameError"
  by (simp add: load_global_def module_globals_def)

lemma load_rows_NameError: "load_rows conv ucd (r # rs) = Inl NameError"
  by (simp add: load_global_Ticket)

text \<open>An exception of the read is passed on, and a sheet without rows loads.\<close>

lemma load_tickets_propagates:
  "read_excel w (excel_path self) = Inl e \<Longrightarrow> load_tickets w conv ucd self = Inl e"
  by (simp add: load_tickets_def)

lemma load_tickets_no_row:
  "read_excel w (excel_path self) = Inr [] \<Longrightarrow> load_tickets w conv ucd self = Inr []"
  by (simp add: load_tickets_def)

lemma load_tickets_rows:
  "read_excel w (excel_path self) = Inr (r # rs) \<Longrightarrow>
     load_tickets w conv ucd self = Inl NameError"
  by (simp add: load_tickets_def load_global_Ticket)

text \<open>
  Claim C8. The load step should convert every raw row of the source file into a
  ticket record (and pass on the error of a missing or malformed file). On a source
  file with one well-formed row the program converts nothing: evaluating the callee
  \<^verbatim>\<open>Ticket\<close> raises \<^verbatim>\<open>NameError\<close>, as on every source file that has a row.
\<close>

theorem load_tickets_sample_raises:
  "load_tickets sample_world conv ucd
     (ReportGenarator_init ''tickets.xlsx'' (Some email_settings)) = Inl NameError"
  by (simp add: load_tickets_def sample_world_def ReportGenarator_init_def load_global_Ticket)

text \<open>
  No run of \<^verbatim>\<open>generate_report\<close> gets past the summary: the read raises, or a row makes
  \<^verbatim>\<open>load_tickets\<close> raise, or there is no row and the summary of no ticket raises.
\<close>

lemma generate_report_always_raises:
  "\<exists>e. generate_report w conv ucd srt self = ([], Inl e)"
proof (cases "read_excel w (excel_path self)")
  case (Inl e)
  then show ?thesis
    by (simp add: generate_report_def load_tickets_propagates)
next
  case (Inr sheet)
  show ?thesis
  proof (cases sheet)
    case Nil
    with Inr show ?thesis
      by (simp add: generate_report_def load_tickets_no_row summary_def TicketReport_init_def
          closed_df_empty)
  next
    case (Cons r rs)
    with Inr show ?thesis
      by (simp add: generate_report_def load_tickets_rows)
  qed
qed

text \<open>The email step by itself calls \<^verbatim>\<open>send_email\<close> exactly for a non-empty configuration.\<close>

lemma email_step_called:
  "Send_Email_Called [xlsx, pdf] \<in> set (fst (email_step w self xlsx pdf)) \<longleftrightarrow>
     email_config self \<noteq> []"
  by (auto simp: email_step_def send_email_def Let_def split: sum.splits option.splits)

lemma email_step_skipped:
  "email_config self = [] \<Longrightarrow> email_step w self xlsx pdf = ([], Inr ())"
  by (simp add: email_step_def)

text \<open>
  Claim C9. In every run of \<^verbatim>\<open>generate_report\<close> the email step should be invoked with
  the two exported paths if and only if the email configuration is not empty. On the
  spreadsheet with one row and the configuration of the entry point, which is not
  empty, the run ends with \<^verbatim>\<open>NameError\<close> in \<^verbatim>\<open>load_tickets\<close> and has done nothing: no file
  is written and \<^verbatim>\<open>send_email\<close> is not called.
\<close>

theorem generate_report_sample_sends_nothing:
  "generate_report sample_world conv ucd srt
     (ReportGenarator_init ''tickets.xlsx'' (Some email_settings)) = ([], Inl NameError) \<and>
   email_config (ReportGenarator_init ''tickets.xlsx'' (Some email_settings)) = email_settings \<and>
   email_settings \<noteq> []"
  by (simp add: generate_report_def load_tickets_def sample_world_def ReportGenarator_init_def
      load_global_Ticket email_settings_def)

end
